theory Spec2Isabelle
  imports Complex_Main "HOL-Library.Multiset"
begin

section \<open>Python values, exceptions and the collaborators of \<open>dataset.py\<close>\<close>

text \<open>
  The development embeds \<open>seq2seq/dataset/dataset.py\<close> (Python 2: \<open>zip\<close> and
  \<open>range\<close> return lists). An exception is a value of type \<open>error\<close>; a method
  that mutates \<open>self\<close> returns the updated object, and a method that raises
  returns the exception together with the object as the exception leaves it.
\<close>

datatype error =
    IndexError
  | AttributeError
  | OverflowError
  | ValueError
  | TypeError
  | VocabularyError \<comment> \<open>whatever \<open>Vocabulary(size)\<close> raises\<close>
  | UtilsError \<comment> \<open>whatever a function of \<open>seq2seq.dataset.utils\<close> raises\<close>

type_synonym token = string
type_synonym sequence = "token list"
type_synonym pair = "sequence \<times> sequence"
type_synonym indices = "int list"
type_synonym encoded = "indices \<times> indices"

text \<open>
  Line 2 imports \<open>Vocabulary\<close> and \<open>utils\<close>, which are not part of the file. Their
  operations are parameters of the model, collected in one record; \<open>'v\<close> is the
  state of a \<open>Vocabulary\<close> object. The constructor and the functions of \<open>utils\<close>
  may raise (\<open>None\<close>); \<open>add_sequence\<close>, \<open>add_token\<close> and \<open>trim\<close> update the
  object they are called on and return it; \<open>indices_from_sequence\<close> is a lookup that
  leaves the vocabulary as it is.
\<close>

record 'v collaborators =
  Vocabulary :: "int \<Rightarrow> 'v option"
  add_sequence :: "'v \<Rightarrow> sequence \<Rightarrow> 'v"
  add_token :: "'v \<Rightarrow> token \<Rightarrow> 'v"
  trim :: "'v \<Rightarrow> 'v"
  indices_from_sequence :: "'v \<Rightarrow> sequence \<Rightarrow> indices"
  read_vocabulary :: "string \<Rightarrow> int \<Rightarrow> token list option"
  prepare_data :: "string \<Rightarrow> int \<Rightarrow> int \<Rightarrow> pair list option"
  prepare_data_from_list ::
    "sequence list \<Rightarrow> sequence list \<Rightarrow> int \<Rightarrow> int \<Rightarrow> pair list option"

text \<open>
  The \<open>src_vocab\<close> / \<open>tgt_vocab\<close> argument is dynamically typed: \<open>None\<close>, a
  \<open>Vocabulary\<close> object, a \<open>str\<close>, or a value of any other type.
\<close>

datatype 'v vocab_arg = PyNone | Instance 'v | Str string | Other

section \<open>The class \<open>Dataset\<close>\<close>

record 'v dataset =
  src_max_len :: int
  tgt_max_len :: int
  input_vocab :: "'v option"
  output_vocab :: "'v option"
  data :: "encoded list option"

text \<open>\<open>__init__\<close> (lines 20-29).\<close>

definition init :: "int \<Rightarrow> int \<Rightarrow> 'v dataset" where
  "init src_len tgt_len =
     \<lparr>src_max_len = src_len, tgt_max_len = tgt_len,
      input_vocab = None, output_vocab = None, data = None\<rparr>"

text \<open>
  \<open>zip(*pairs)\<close> on a list of 2-tuples: the empty list when \<open>pairs\<close> is empty,
  otherwise the tuple of all first components and the tuple of all second ones.
  \<open>getitem\<close> is list indexing with a non-negative index, which raises
  \<open>IndexError\<close> out of range.
\<close>

definition zip_star :: "pair list \<Rightarrow> sequence list list" where
  "zip_star pairs = (if pairs = [] then [] else [map fst pairs, map snd pairs])"

definition getitem :: "'a list \<Rightarrow> nat \<Rightarrow> error + 'a" where
  "getitem xs i = (if i < length xs then Inr (xs ! i) else Inl IndexError)"

text \<open>\<open>_init_vocab\<close> (lines 125-139). The constructor call of line 126 comes first.\<close>

definition init_vocab ::
  "'v collaborators \<Rightarrow> sequence list \<Rightarrow> int \<Rightarrow> 'v vocab_arg \<Rightarrow> error + 'v" where
  "init_vocab E sequences max_num_vocab vocab =
     (case Vocabulary E max_num_vocab of
        None \<Rightarrow> Inl VocabularyError
      | Some resp_vocab \<Rightarrow>
          (case vocab of
             PyNone \<Rightarrow> Inr (trim E (foldl (add_sequence E) resp_vocab sequences))
           | Instance v \<Rightarrow> Inr v
           | Str path \<Rightarrow>
               (case read_vocabulary E path max_num_vocab of
                  None \<Rightarrow> Inl UtilsError
                | Some toks \<Rightarrow> Inr (foldl (add_token E) resp_vocab toks))
           | Other \<Rightarrow> Inl AttributeError))"

text \<open>The loop of lines 118-122: \<open>acc\<close> is \<open>self.data\<close>, appended to in place.\<close>

fun encode_loop ::
  "'v collaborators \<Rightarrow> 'v \<Rightarrow> 'v \<Rightarrow> pair list \<Rightarrow> encoded list \<Rightarrow> encoded list" where
  "encode_loop E iv ov [] acc = acc"
| "encode_loop E iv ov (pair # rest) acc =
     (let src = indices_from_sequence E iv (fst pair);
          dst = indices_from_sequence E ov (snd pair)
      in encode_loop E iv ov rest (acc @ [(src, dst)]))"

text \<open>
  \<open>_encode\<close> (lines 92-123). The argument \<open>zip(*pairs)[0]\<close> is evaluated before
  \<open>_init_vocab\<close> is entered, and \<open>self.input_vocab\<close> is assigned before the target
  side is looked at.
\<close>

definition encode ::
  "'v collaborators \<Rightarrow> 'v dataset \<Rightarrow> pair list \<Rightarrow> 'v vocab_arg \<Rightarrow> 'v vocab_arg \<Rightarrow> int \<Rightarrow> int
     \<Rightarrow> (error \<times> 'v dataset) + 'v dataset" where
  "encode E self pairs src_vocab tgt_vocab src_max_vocab tgt_max_vocab =
     (case getitem (zip_star pairs) 0 of
        Inl e \<Rightarrow> Inl (e, self)
      | Inr srcs \<Rightarrow>
          (case init_vocab E srcs src_max_vocab src_vocab of
             Inl e \<Rightarrow> Inl (e, self)
           | Inr iv \<Rightarrow>
               (let self1 = self\<lparr>input_vocab := Some iv\<rparr> in
                case getitem (zip_star pairs) 1 of
                  Inl e \<Rightarrow> Inl (e, self1)
                | Inr tgts \<Rightarrow>
                    (case init_vocab E tgts tgt_max_vocab tgt_vocab of
                       Inl e \<Rightarrow> Inl (e, self1)
                     | Inr ov \<Rightarrow>
                         (let self2 = self1\<lparr>output_vocab := Some ov\<rparr> in
                          Inr (self2\<lparr>data := Some (encode_loop E iv ov pairs [])\<rparr>))))))"

text \<open>\<open>from_file\<close> (lines 32-60) and \<open>from_list\<close> (lines 62-90).\<close>

definition from_file ::
  "'v collaborators \<Rightarrow> string \<Rightarrow> int \<Rightarrow> int \<Rightarrow> 'v vocab_arg \<Rightarrow> 'v vocab_arg \<Rightarrow> int \<Rightarrow> int
     \<Rightarrow> (error \<times> 'v dataset) + 'v dataset" where
  "from_file E path src_len tgt_len src_vocab tgt_vocab src_max_vocab tgt_max_vocab =
     (let obj = init src_len tgt_len in
      case prepare_data E path src_len tgt_len of
        None \<Rightarrow> Inl (UtilsError, obj)
      | Some pairs \<Rightarrow> encode E obj pairs src_vocab tgt_vocab src_max_vocab tgt_max_vocab)"

definition from_list ::
  "'v collaborators \<Rightarrow> sequence list \<Rightarrow> sequence list \<Rightarrow> int \<Rightarrow> int
     \<Rightarrow> 'v vocab_arg \<Rightarrow> 'v vocab_arg \<Rightarrow> int \<Rightarrow> int \<Rightarrow> (error \<times> 'v dataset) + 'v dataset" where
  "from_list E src_data tgt_data src_len tgt_len src_vocab tgt_vocab src_max_vocab tgt_max_vocab =
     (let obj = init src_len tgt_len in
      case prepare_data_from_list E src_data tgt_data src_len tgt_len of
        None \<Rightarrow> Inl (UtilsError, obj)
      | Some pairs \<Rightarrow> encode E obj pairs src_vocab tgt_vocab src_max_vocab tgt_max_vocab)"

text \<open>\<open>__len__\<close> (lines 141-142); \<open>len(None)\<close> raises \<open>TypeError\<close>.\<close>

definition len :: "'v dataset \<Rightarrow> error + int" where
  "len self = (case data self of None \<Rightarrow> Inl TypeError | Some d \<Rightarrow> Inr (int (length d)))"

text \<open>
  Python 2's \<open>range(start, stop, step)\<close>: the list of the values, \<open>ValueError\<close>
  for a zero step.
\<close>

function range_up :: "int \<Rightarrow> int \<Rightarrow> int \<Rightarrow> int list" where
  "range_up i stop step =
     (if 0 < step \<and> i < stop then i # range_up (i + step) stop step else [])"
  by pat_completeness auto
termination
  by (relation "measure (\<lambda>(i, stop, step). nat (stop - i))") auto

function range_down :: "int \<Rightarrow> int \<Rightarrow> int \<Rightarrow> int list" where
  "range_down i stop step =
     (if step < 0 \<and> stop < i then i # range_down (i + step) stop step else [])"
  by pat_completeness auto
termination
  by (relation "measure (\<lambda>(i, stop, step). nat (i - stop))") auto

declare range_up.simps [simp del] range_down.simps [simp del]

definition py_range :: "int \<Rightarrow> int \<Rightarrow> int \<Rightarrow> error + int list" where
  "py_range start stop step =
     (if step = 0 then Inl ValueError
      else if 0 < step then Inr (range_up start stop step)
      else Inr (range_down start stop step))"

text \<open>
  List slicing \<open>xs[lo:hi]\<close>: a negative bound counts from the end, and both bounds
  are clamped to the list.
\<close>

definition slice_bound :: "int \<Rightarrow> int \<Rightarrow> nat" where
  "slice_bound n k = nat (if k < 0 then max (k + n) 0 else min k n)"

definition getslice :: "'a list \<Rightarrow> int \<Rightarrow> int \<Rightarrow> 'a list" where
  "getslice xs lo hi =
     (let n = int (length xs); l = slice_bound n lo; h = slice_bound n hi
      in take (h - l) (drop l xs))"

text \<open>\<open>num_batches\<close> (lines 144-154).\<close>

definition num_batches :: "'v dataset \<Rightarrow> int \<Rightarrow> error + int" where
  "num_batches self batch_size =
     (case data self of
        None \<Rightarrow> Inl TypeError
      | Some d \<Rightarrow>
          (case py_range 0 (int (length d)) batch_size of
             Inl e \<Rightarrow> Inl e
           | Inr r \<Rightarrow> Inr (int (length r))))"

text \<open>
  \<open>make_batches\<close> (lines 156-175) is a generator: its body runs when the generator
  is iterated. The model gives what iterating it to the end observes: the batches
  yielded, in order, and the exception that ended the iteration, if one did.
\<close>

type_synonym batch = "indices list \<times> indices list"

fun batches_loop :: "encoded list \<Rightarrow> int \<Rightarrow> int list \<Rightarrow> batch list" where
  "batches_loop d batch_size [] = []"
| "batches_loop d batch_size (i # rest) =
     (let cur_batch = getslice d i (i + batch_size);
          source_variables = map fst cur_batch;
          target_variables = map snd cur_batch
      in (source_variables, target_variables) # batches_loop d batch_size rest)"

definition make_batches :: "'v dataset \<Rightarrow> int \<Rightarrow> batch list \<times> error option" where
  "make_batches self batch_size =
     (case data self of
        None \<Rightarrow> ([], Some TypeError)
      | Some d \<Rightarrow>
          if int (length d) < batch_size then ([], Some OverflowError)
          else (case py_range 0 (int (length d)) batch_size of
                  Inl e \<Rightarrow> ([], Some e)
                | Inr r \<Rightarrow> (batches_loop d batch_size r, None)))"

section \<open>The module \<open>random\<close> and \<open>shuffle\<close>\<close>

text \<open>
  The module \<open>random\<close> keeps one hidden generator; \<open>'r\<close> is its state, passed in
  and out explicitly. \<open>seed R a\<close> is the state \<open>random.seed(a)\<close> installs,
  \<open>scaled R g n\<close> is \<open>int(random() * n)\<close> for the float drawn in state \<open>g\<close>, and
  \<open>advance R g\<close> is the state after that draw. The float lies in \<open>[0, 1)\<close>, so the
  index lies below \<open>n\<close>: the model reduces it modulo \<open>n\<close>, which changes no
  function that already has this range.
\<close>

record 'r random_module =
  seed :: "int \<Rightarrow> 'r"
  scaled :: "'r \<Rightarrow> nat \<Rightarrow> nat"
  advance :: "'r \<Rightarrow> 'r"

text \<open>
  \<open>random.shuffle(x)\<close> of the standard library:
  \<^verbatim>\<open>for i in reversed(xrange(1, len(x))):
      j = int(random() * (i+1))
      x[i], x[j] = x[j], x[i]\<close>
\<close>

fun shuffle_loop :: "'r random_module \<Rightarrow> nat list \<Rightarrow> 'r \<Rightarrow> 'a list \<Rightarrow> 'a list \<times> 'r" where
  "shuffle_loop R [] g x = (x, g)"
| "shuffle_loop R (i # rest) g x =
     (let j = scaled R g (i + 1) mod (i + 1)
      in shuffle_loop R rest (advance R g) (x[i := x ! j, j := x ! i]))"

definition random_shuffle :: "'r random_module \<Rightarrow> 'r \<Rightarrow> 'a list \<Rightarrow> 'a list \<times> 'r" where
  "random_shuffle R g x = shuffle_loop R (rev [1..<length x]) g x"

text \<open>
  \<open>shuffle\<close> (lines 177-186): the exception raised, if any, the state of the
  generator afterwards, and the dataset afterwards.
\<close>

definition shuffle ::
  "'r random_module \<Rightarrow> 'r \<Rightarrow> 'v dataset \<Rightarrow> int option \<Rightarrow> error option \<times> 'r \<times> 'v dataset" where
  "shuffle R g self seed_arg =
     (let g1 = (case seed_arg of None \<Rightarrow> g | Some a \<Rightarrow> seed R a) in
      case data self of
        None \<Rightarrow> (Some TypeError, g1, self)
      | Some d \<Rightarrow>
          (case random_shuffle R g1 d of
             (d', g2) \<Rightarrow> (None, g2, self\<lparr>data := Some d'\<rparr>)))"

section \<open>An instance of the collaborators\<close>

text \<open>
  Modelled from the spec: the class \<open>Vocabulary\<close> (section 4.1 of the spec), whose
  code is not in the file. It is used to evaluate the theorems below, which hold for
  all collaborators, at concrete inputs. \<open>entries\<close> lists the non-reserved tokens
  with their counts in index order: the token at position \<open>k\<close> has index \<open>4 + k\<close>.
  The four reserved symbols (padding, start, end, unknown) have the indices 0 to 3,
  and \<open>indices_from_sequence\<close> appends the end-of-sequence index.
\<close>

record vocabulary =
  max_size :: int
  entries :: "(token \<times> nat) list"
  trimmed :: bool

definition reserved :: "token list" where
  "reserved = [''<pad>'', ''<sos>'', ''<eos>'', ''<unk>'']"

definition vocabulary_new :: "int \<Rightarrow> vocabulary option" where
  "vocabulary_new n =
     (if n < int (length reserved) then None
      else Some \<lparr>max_size = n, entries = [], trimmed = False\<rparr>)"

definition vocabulary_add_token :: "vocabulary \<Rightarrow> token \<Rightarrow> vocabulary" where
  "vocabulary_add_token v tok =
     (if tok \<in> set reserved then v
      else if tok \<in> set (map fst (entries v))
        then v\<lparr>entries := map (\<lambda>(t, c). if t = tok then (t, Suc c) else (t, c)) (entries v)\<rparr>
      else v\<lparr>entries := entries v @ [(tok, 1)]\<rparr>)"

definition vocabulary_add_sequence :: "vocabulary \<Rightarrow> sequence \<Rightarrow> vocabulary" where
  "vocabulary_add_sequence v toks = foldl vocabulary_add_token v toks"

definition vocabulary_trim :: "vocabulary \<Rightarrow> vocabulary" where
  "vocabulary_trim v =
     (if trimmed v then v
      else v\<lparr>entries :=
                take (nat (max_size v - int (length reserved)))
                  (sort_key (\<lambda>(t, c). - int c) (entries v)),
             trimmed := True\<rparr>)"

fun index_from :: "nat \<Rightarrow> token list \<Rightarrow> token \<Rightarrow> int" where
  "index_from k [] tok = 3"
| "index_from k (t # ts) tok = (if t = tok then int k else index_from (Suc k) ts tok)"

definition vocabulary_indices :: "vocabulary \<Rightarrow> sequence \<Rightarrow> indices" where
  "vocabulary_indices v toks =
     map (index_from 0 (reserved @ map fst (entries v))) toks @ [2]"

text \<open>
  Modelled from the spec: the length filter of \<open>utils\<close> (section 4.2), which drops
  a pair whose source or target is longer than its cap, and a file system that holds
  one corpus and one ranked vocabulary list.
\<close>

definition length_filter :: "pair list \<Rightarrow> int \<Rightarrow> int \<Rightarrow> pair list" where
  "length_filter pairs src_len tgt_len =
     filter (\<lambda>(s, t). int (length s) \<le> src_len \<and> int (length t) \<le> tgt_len) pairs"

definition corpus :: "pair list" where
  "corpus =
     [([''a'', ''b''], [''x'']),
      ([''a'', ''b'', ''c'', ''d'', ''e'', ''f'', ''g'', ''h'', ''i'', ''j''], [''y'']),
      ([''c'', ''a'', ''b''], [''x'', ''y''])]"

definition example :: "vocabulary collaborators" where
  "example =
     \<lparr>Vocabulary = vocabulary_new,
      add_sequence = vocabulary_add_sequence,
      add_token = vocabulary_add_token,
      trim = vocabulary_trim,
      indices_from_sequence = vocabulary_indices,
      read_vocabulary =
        (\<lambda>path n. if path = ''vocab.txt'' then Some (take (nat n) [''a'', ''b'', ''c'']) else None),
      prepare_data =
        (\<lambda>path src_len tgt_len.
           if path = ''corpus.tsv'' then Some (length_filter corpus src_len tgt_len) else None),
      prepare_data_from_list =
        (\<lambda>src_data tgt_data src_len tgt_len.
           Some (length_filter (zip src_data tgt_data) src_len tgt_len))\<rparr>"

text \<open>
  A linear congruential generator in the place of the Mersenne Twister, to evaluate
  \<open>shuffle\<close> at concrete inputs.
\<close>

definition lcg :: "nat random_module" where
  "lcg =
     \<lparr>seed = (\<lambda>a. nat \<bar>a\<bar>),
      scaled = (\<lambda>g n. (g div 7) mod n),
      advance = (\<lambda>g. (g * 75 + 74) mod 65537)\<rparr>"

text \<open>
  The corpus after the length filter with both caps 5, encoded with fresh
  vocabularies of at most 6 and 50000 entries; a pre-built vocabulary, and the same
  pairs encoded with it on both sides.
\<close>

definition encoded_corpus :: "vocabulary dataset" where
  "encoded_corpus =
     \<lparr>src_max_len = 5, tgt_max_len = 5,
      input_vocab = Some \<lparr>max_size = 6, entries = [(''a'', 2), (''b'', 2)], trimmed = True\<rparr>,
      output_vocab = Some \<lparr>max_size = 50000, entries = [(''x'', 2), (''y'', 1)], trimmed = True\<rparr>,
      data = Some [([4, 5, 2], [4, 2]), ([3, 4, 5, 2], [4, 5, 2])]\<rparr>"



text \<open>
  A second instance records the calls made on a \<open>Vocabulary\<close> object: its state is
  the list of the calls so far, the constructor call first. It encodes nothing and
  reads no file.
\<close>

datatype call = New int | Add_sequence sequence | Add_token token | Trim

definition recorder :: "call list collaborators" where
  "recorder =
     \<lparr>Vocabulary = (\<lambda>n. Some [New n]),
      add_sequence = (\<lambda>v s. v @ [Add_sequence s]),
      add_token = (\<lambda>v t. v @ [Add_token t]),
      trim = (\<lambda>v. v @ [Trim]),
      indices_from_sequence = (\<lambda>v s. []),
      read_vocabulary = (\<lambda>path n. None),
      prepare_data = (\<lambda>path src_len tgt_len. None),
      prepare_data_from_list = (\<lambda>src_data tgt_data src_len tgt_len. None)\<rparr>"

text \<open>
  An encoded corpus of ten pairs and one of four, each pair carrying the same marker
  on both sides.
\<close>

definition ten_pairs :: "encoded list" where
  "ten_pairs = [([0], [100]), ([1], [101]), ([2], [102]), ([3], [103]), ([4], [104]),
                ([5], [105]), ([6], [106]), ([7], [107]), ([8], [108]), ([9], [109])]"

definition ten :: "vocabulary dataset" where
  "ten = (init 5 5)\<lparr>data := Some ten_pairs\<rparr>"

definition four_pairs :: "encoded list" where
  "four_pairs = [([0], [100]), ([1], [101]), ([2], [102]), ([3], [103])]"

definition four :: "vocabulary dataset" where
  "four = (init 5 5)\<lparr>data := Some four_pairs\<rparr>"

section \<open>Encoding\<close>

lemmas example_simps =
  example_def init_def length_filter_def corpus_def getitem_def zip_star_def
  init_vocab_def vocabulary_new_def reserved_def vocabulary_add_sequence_def
  vocabulary_add_token_def vocabulary_trim_def vocabulary_indices_def Let_def

lemma encode_loop_map:
  "encode_loop E iv ov pairs acc =
     acc @ map (\<lambda>p. (indices_from_sequence E iv (fst p), indices_from_sequence E ov (snd p))) pairs"
  by (induction pairs arbitrary: acc) (simp_all add: Let_def)

lemma getitem_zip_star_0:
  "getitem (zip_star pairs) 0 = (if pairs = [] then Inl IndexError else Inr (map fst pairs))"
  by (simp add: getitem_def zip_star_def)

lemma getitem_zip_star_1:
  "getitem (zip_star pairs) (Suc 0) = (if pairs = [] then Inl IndexError else Inr (map snd pairs))"
  by (simp add: getitem_def zip_star_def)

lemma encode_empty: "encode E self [] sv tv m1 m2 = Inl (IndexError, self)"
  by (simp add: encode_def getitem_zip_star_0)

lemma encode_nonempty:
  "pairs \<noteq> [] \<Longrightarrow>
   encode E self pairs sv tv m1 m2 =
     (case init_vocab E (map fst pairs) m1 sv of
        Inl e \<Rightarrow> Inl (e, self)
      | Inr iv \<Rightarrow>
          (case init_vocab E (map snd pairs) m2 tv of
             Inl e \<Rightarrow> Inl (e, self\<lparr>input_vocab := Some iv\<rparr>)
           | Inr ov \<Rightarrow>
               Inr (self\<lparr>input_vocab := Some iv, output_vocab := Some ov,
                     data := Some (map (\<lambda>p. (indices_from_sequence E iv (fst p),
                                               indices_from_sequence E ov (snd p))) pairs)\<rparr>)))"
  by (auto simp: encode_def getitem_zip_star_0 getitem_zip_star_1 encode_loop_map Let_def
           split: sum.split)

lemma encode_Inr_iff:
  "encode E self pairs sv tv m1 m2 = Inr d \<longleftrightarrow>
     pairs \<noteq> [] \<and>
     (\<exists>iv ov. init_vocab E (map fst pairs) m1 sv = Inr iv \<and>
              init_vocab E (map snd pairs) m2 tv = Inr ov \<and>
              d = self\<lparr>input_vocab := Some iv, output_vocab := Some ov,
                     data := Some (map (\<lambda>p. (indices_from_sequence E iv (fst p),
                                               indices_from_sequence E ov (snd p))) pairs)\<rparr>)"
proof (cases "pairs = []")
  case True
  then show ?thesis by (simp add: encode_empty)
next
  case False
  then show ?thesis
    by (auto simp: encode_nonempty split: sum.splits)
qed

lemma encode_Inl_data:
  "encode E self pairs sv tv m1 m2 = Inl (e, s) \<Longrightarrow> data s = data self"
  by (cases "pairs = []") (auto simp: encode_empty encode_nonempty split: sum.splits)

lemma init_vocab_PyNone:
  "init_vocab E seqs m PyNone =
     (case Vocabulary E m of
        None \<Rightarrow> Inl VocabularyError
      | Some v0 \<Rightarrow> Inr (trim E (foldl (add_sequence E) v0 seqs)))"
  by (simp add: init_vocab_def split: option.split)


lemma init_vocab_Other:
  "init_vocab E seqs m Other =
     (if Vocabulary E m = None then Inl VocabularyError else Inl AttributeError)"
  by (simp add: init_vocab_def split: option.split)

lemma recorded_add_sequence:
  "foldl (add_sequence recorder) v seqs = v @ map Add_sequence seqs"
  by (induction seqs arbitrary: v) (simp_all add: recorder_def)

lemma example_encode:
  "encode example (init 5 5) (length_filter corpus 5 5) PyNone PyNone 6 50000 = Inr encoded_corpus"
  by (simp add: encode_def example_simps encoded_corpus_def)

text \<open>
  C1. When \<open>_encode\<close> returns, both vocabularies are the ones \<open>_init_vocab\<close>
  resolved, \<open>data\<close> holds one encoded pair per input pair in the order of \<open>pairs\<close>,
  \<open>data[i]\<close> being \<open>pairs[i]\<close> with its source mapped through
  \<open>input_vocab.indices_from_sequence\<close> and its target through
  \<open>output_vocab.indices_from_sequence\<close>, every pair is encoded with the resolved
  vocabularies, and \<open>len(dataset)\<close> is the number of pairs. On a non-empty list
  \<open>_encode\<close> returns whenever both vocabularies resolve.
\<close>

theorem encode_encodes_every_pair:
  "(encode E self pairs src_vocab tgt_vocab src_max_vocab tgt_max_vocab = Inr d \<longrightarrow>
      (\<exists>iv ov.
         init_vocab E (map fst pairs) src_max_vocab src_vocab = Inr iv \<and>
         init_vocab E (map snd pairs) tgt_max_vocab tgt_vocab = Inr ov \<and>
         input_vocab d = Some iv \<and> output_vocab d = Some ov \<and>
         data d = Some (map (\<lambda>p. (indices_from_sequence E iv (fst p),
                                   indices_from_sequence E ov (snd p))) pairs) \<and>
         (\<forall>i<length pairs.
            the (data d) ! i = (indices_from_sequence E iv (fst (pairs ! i)),
                                indices_from_sequence E ov (snd (pairs ! i)))) \<and>
         len d = Inr (int (length pairs)))) \<and>
   (pairs \<noteq> [] \<and>
    init_vocab E (map fst pairs) src_max_vocab src_vocab = Inr iv' \<and>
    init_vocab E (map snd pairs) tgt_max_vocab tgt_vocab = Inr ov' \<longrightarrow>
      (\<exists>d'. encode E self pairs src_vocab tgt_vocab src_max_vocab tgt_max_vocab = Inr d' \<and>
            input_vocab d' = Some iv' \<and> output_vocab d' = Some ov'))"
  by (auto simp: encode_Inr_iff len_def)

theorem encode_encodes_every_pair_witness:
  "length_filter corpus 5 5 \<noteq> [] \<and>
   init_vocab example (map fst (length_filter corpus 5 5)) 6 PyNone
     = Inr \<lparr>max_size = 6, entries = [(''a'', 2), (''b'', 2)], trimmed = True\<rparr> \<and>
   init_vocab example (map snd (length_filter corpus 5 5)) 50000 PyNone
     = Inr \<lparr>max_size = 50000, entries = [(''x'', 2), (''y'', 1)], trimmed = True\<rparr> \<and>
   encode example (init 5 5) (length_filter corpus 5 5) PyNone PyNone 6 50000 = Inr encoded_corpus \<and>
   data encoded_corpus = Some [([4, 5, 2], [4, 2]), ([3, 4, 5, 2], [4, 5, 2])] \<and>
   len encoded_corpus = Inr 2"
proof -
  have n: "length_filter corpus 5 5 \<noteq> []" by (simp add: length_filter_def corpus_def)
  have i: "init_vocab example (map fst (length_filter corpus 5 5)) 6 PyNone
             = Inr \<lparr>max_size = 6, entries = [(''a'', 2), (''b'', 2)], trimmed = True\<rparr>"
    by (simp add: example_simps)
  have t: "init_vocab example (map snd (length_filter corpus 5 5)) 50000 PyNone
             = Inr \<lparr>max_size = 50000, entries = [(''x'', 2), (''y'', 1)], trimmed = True\<rparr>"
    by (simp add: example_simps)
  from n i t example_encode
    encode_encodes_every_pair [where E = example and self = "init 5 5"
      and pairs = "length_filter corpus 5 5" and src_vocab = PyNone and tgt_vocab = PyNone
      and src_max_vocab = 6 and tgt_max_vocab = 50000 and d = encoded_corpus
      and iv' = "\<lparr>max_size = 6, entries = [(''a'', 2), (''b'', 2)], trimmed = True\<rparr>"
      and ov' = "\<lparr>max_size = 50000, entries = [(''x'', 2), (''y'', 1)], trimmed = True\<rparr>"]
  show ?thesis by (simp add: encoded_corpus_def len_def)
qed



text \<open>
  C8. With no vocabulary given for a side, \<open>_init_vocab\<close> constructs a
  \<open>Vocabulary\<close> with the given max size, calls \<open>add_sequence\<close> on it with every
  sequence in order and then \<open>trim\<close> once: these are the calls the recording
  instance sees, in this order and no others. When \<open>_encode\<close> returns, the
  vocabulary of that side is this trimmed vocabulary, built from that side of all the
  pairs, and that side of every pair is encoded with it.
\<close>

theorem fresh_vocabulary_built_then_trimmed:
  "init_vocab E seqs m PyNone =
     (case Vocabulary E m of
        None \<Rightarrow> Inl VocabularyError
      | Some v0 \<Rightarrow> Inr (trim E (foldl (add_sequence E) v0 seqs))) \<and>
   init_vocab recorder seqs m PyNone = Inr ([New m] @ map Add_sequence seqs @ [Trim]) \<and>
   (encode E self pairs PyNone tgt_vocab src_max_vocab tgt_max_vocab = Inr d \<longrightarrow>
      (\<exists>v0. Vocabulary E src_max_vocab = Some v0 \<and>
         input_vocab d = Some (trim E (foldl (add_sequence E) v0 (map fst pairs))) \<and>
         map fst (the (data d)) =
           map (\<lambda>p. indices_from_sequence E
                       (trim E (foldl (add_sequence E) v0 (map fst pairs))) (fst p)) pairs)) \<and>
   (encode E self pairs src_vocab PyNone src_max_vocab tgt_max_vocab = Inr d \<longrightarrow>
      (\<exists>v0. Vocabulary E tgt_max_vocab = Some v0 \<and>
         output_vocab d = Some (trim E (foldl (add_sequence E) v0 (map snd pairs))) \<and>
         map snd (the (data d)) =
           map (\<lambda>p. indices_from_sequence E
                       (trim E (foldl (add_sequence E) v0 (map snd pairs))) (snd p)) pairs))"
proof (intro conjI impI)
  show "init_vocab E seqs m PyNone =
     (case Vocabulary E m of
        None \<Rightarrow> Inl VocabularyError
      | Some v0 \<Rightarrow> Inr (trim E (foldl (add_sequence E) v0 seqs)))"
    by (rule init_vocab_PyNone)
next
  have "Vocabulary recorder m = Some [New m]" "trim recorder = (\<lambda>v. v @ [Trim])"
    by (simp_all add: recorder_def)
  then show "init_vocab recorder seqs m PyNone = Inr ([New m] @ map Add_sequence seqs @ [Trim])"
    by (simp add: init_vocab_PyNone recorded_add_sequence)
next
  assume "encode E self pairs PyNone tgt_vocab src_max_vocab tgt_max_vocab = Inr d"
  then show "\<exists>v0. Vocabulary E src_max_vocab = Some v0 \<and>
         input_vocab d = Some (trim E (foldl (add_sequence E) v0 (map fst pairs))) \<and>
         map fst (the (data d)) =
           map (\<lambda>p. indices_from_sequence E
                       (trim E (foldl (add_sequence E) v0 (map fst pairs))) (fst p)) pairs"
    by (auto simp: encode_Inr_iff init_vocab_PyNone comp_def split: option.splits)
next
  assume "encode E self pairs src_vocab PyNone src_max_vocab tgt_max_vocab = Inr d"
  then show "\<exists>v0. Vocabulary E tgt_max_vocab = Some v0 \<and>
         output_vocab d = Some (trim E (foldl (add_sequence E) v0 (map snd pairs))) \<and>
         map snd (the (data d)) =
           map (\<lambda>p. indices_from_sequence E
                       (trim E (foldl (add_sequence E) v0 (map snd pairs))) (snd p)) pairs"
    by (auto simp: encode_Inr_iff init_vocab_PyNone comp_def split: option.splits)
qed

theorem fresh_vocabulary_built_then_trimmed_witness:
  "encode example (init 5 5) (length_filter corpus 5 5) PyNone PyNone 6 50000 = Inr encoded_corpus \<and>
   Vocabulary example 6 = Some \<lparr>max_size = 6, entries = [], trimmed = False\<rparr> \<and>
   foldl (add_sequence example) \<lparr>max_size = 6, entries = [], trimmed = False\<rparr>
       (map fst (length_filter corpus 5 5))
     = \<lparr>max_size = 6, entries = [(''a'', 2), (''b'', 2), (''c'', 1)], trimmed = False\<rparr> \<and>
   input_vocab encoded_corpus
     = Some (trim example
        \<lparr>max_size = 6, entries = [(''a'', 2), (''b'', 2), (''c'', 1)], trimmed = False\<rparr>) \<and>
   input_vocab encoded_corpus
     = Some \<lparr>max_size = 6, entries = [(''a'', 2), (''b'', 2)], trimmed = True\<rparr>"
proof -
  have v: "Vocabulary example 6 = Some \<lparr>max_size = 6, entries = [], trimmed = False\<rparr>"
    by (simp add: example_simps)
  have f: "foldl (add_sequence example) \<lparr>max_size = 6, entries = [], trimmed = False\<rparr>
       (map fst (length_filter corpus 5 5))
     = \<lparr>max_size = 6, entries = [(''a'', 2), (''b'', 2), (''c'', 1)], trimmed = False\<rparr>"
    by (simp add: example_simps)
  from fresh_vocabulary_built_then_trimmed [where E = example and self = "init 5 5"
      and pairs = "length_filter corpus 5 5" and src_vocab = PyNone and tgt_vocab = PyNone
      and src_max_vocab = 6 and tgt_max_vocab = 50000 and d = encoded_corpus]
    example_encode v f
  show ?thesis by (auto simp: encoded_corpus_def)
qed

text \<open>
  C9. When the argument for a side is neither \<open>None\<close>, a \<open>Vocabulary\<close> nor a
  \<open>str\<close>, \<open>_encode\<close> never returns a dataset, and \<open>data\<close> is as it was when
  the exception leaves. The exception is \<open>AttributeError\<close> when \<open>pairs\<close> is not
  empty and the steps before the dispatch on that argument return: the constructor
  call of line 126 and, for \<open>tgt_vocab\<close>, the resolution of the source side.
\<close>

theorem invalid_vocabulary_argument:
  "(src_vocab = Other \<or> tgt_vocab = Other \<longrightarrow>
      (\<exists>e s. encode E self pairs src_vocab tgt_vocab src_max_vocab tgt_max_vocab = Inl (e, s) \<and>
             data s = data self)) \<and>
   (pairs \<noteq> [] \<and> Vocabulary E src_max_vocab \<noteq> None \<longrightarrow>
      encode E self pairs Other tgt_vocab src_max_vocab tgt_max_vocab
        = Inl (AttributeError, self)) \<and>
   (pairs \<noteq> [] \<and> init_vocab E (map fst pairs) src_max_vocab src_vocab = Inr iv \<and>
    Vocabulary E tgt_max_vocab \<noteq> None \<longrightarrow>
      encode E self pairs src_vocab Other src_max_vocab tgt_max_vocab
        = Inl (AttributeError, self\<lparr>input_vocab := Some iv\<rparr>))"
proof (intro conjI impI)
  assume o: "src_vocab = Other \<or> tgt_vocab = Other"
  have "\<not> (\<exists>d. encode E self pairs src_vocab tgt_vocab src_max_vocab tgt_max_vocab = Inr d)"
    using o by (auto simp: encode_Inr_iff init_vocab_Other split: if_splits)
  then obtain e s where
    r: "encode E self pairs src_vocab tgt_vocab src_max_vocab tgt_max_vocab = Inl (e, s)"
    by (cases "encode E self pairs src_vocab tgt_vocab src_max_vocab tgt_max_vocab") auto
  then have "data s = data self" by (rule encode_Inl_data)
  with r show "\<exists>e s. encode E self pairs src_vocab tgt_vocab src_max_vocab tgt_max_vocab
                        = Inl (e, s) \<and> data s = data self"
    by blast
next
  assume "pairs \<noteq> [] \<and> Vocabulary E src_max_vocab \<noteq> None"
  then show "encode E self pairs Other tgt_vocab src_max_vocab tgt_max_vocab
               = Inl (AttributeError, self)"
    by (simp add: encode_nonempty init_vocab_Other)
next
  assume "pairs \<noteq> [] \<and> init_vocab E (map fst pairs) src_max_vocab src_vocab = Inr iv \<and>
    Vocabulary E tgt_max_vocab \<noteq> None"
  then show "encode E self pairs src_vocab Other src_max_vocab tgt_max_vocab
               = Inl (AttributeError, self\<lparr>input_vocab := Some iv\<rparr>)"
    by (simp add: encode_nonempty init_vocab_Other)
qed

theorem invalid_vocabulary_argument_witness:
  "length_filter corpus 5 5 \<noteq> [] \<and> Vocabulary example 6 \<noteq> None \<and>
   Vocabulary example 50000 \<noteq> None \<and>
   init_vocab example (map fst (length_filter corpus 5 5)) 6 PyNone
     = Inr \<lparr>max_size = 6, entries = [(''a'', 2), (''b'', 2)], trimmed = True\<rparr> \<and>
   encode example (init 5 5) (length_filter corpus 5 5) Other Other 6 50000
     = Inl (AttributeError, init 5 5) \<and>
   encode example (init 5 5) (length_filter corpus 5 5) PyNone Other 6 50000
     = Inl (AttributeError, (init 5 5)
         \<lparr>input_vocab := Some \<lparr>max_size = 6, entries = [(''a'', 2), (''b'', 2)], trimmed = True\<rparr>\<rparr>) \<and>
   data ((init 5 5 :: vocabulary dataset)
         \<lparr>input_vocab := Some \<lparr>max_size = 6, entries = [(''a'', 2), (''b'', 2)], trimmed = True\<rparr>\<rparr>)
     = data (init 5 5 :: vocabulary dataset)"
proof -
  let ?iv = "\<lparr>max_size = 6, entries = [(''a'', 2), (''b'', 2)], trimmed = True\<rparr>"
  have n: "length_filter corpus 5 5 \<noteq> []" by (simp add: length_filter_def corpus_def)
  have c: "Vocabulary example 6 \<noteq> None" "Vocabulary example 50000 \<noteq> None"
    by (simp_all add: example_def vocabulary_new_def reserved_def)
  have i: "init_vocab example (map fst (length_filter corpus 5 5)) 6 PyNone = Inr ?iv"
    by (simp add: example_simps)
  from n c i
    invalid_vocabulary_argument [where E = example and self = "init 5 5"
      and pairs = "length_filter corpus 5 5" and src_vocab = PyNone and tgt_vocab = Other
      and src_max_vocab = 6 and tgt_max_vocab = 50000 and iv = ?iv]
  show ?thesis by simp
qed

text \<open>
  On an empty pair list the exception is not \<open>AttributeError\<close>:
  \<open>zip(*pairs)[0]\<close> raises \<open>IndexError\<close> before \<open>_init_vocab\<close> sees the
  invalid argument.
\<close>

theorem invalid_vocabulary_argument_counterexample:
  "encode example (init 5 5) [] Other PyNone 50000 50000 = Inl (IndexError, init 5 5) \<and>
   IndexError \<noteq> AttributeError"
  by (simp add: encode_empty)

text \<open>
  C10. On an empty pair list \<open>_encode\<close> raises \<open>IndexError\<close> at
  \<open>zip(*pairs)[0]\<close> and changes nothing, so \<open>from_file\<close> and \<open>from_list\<close>
  raise when the filter retains no pair, and a dataset either of them returns has
  at least one pair.
\<close>

theorem no_dataset_from_empty_pairs:
  "encode E self [] src_vocab tgt_vocab src_max_vocab tgt_max_vocab = Inl (IndexError, self) \<and>
   (prepare_data E path src_len tgt_len = Some [] \<longrightarrow>
      from_file E path src_len tgt_len src_vocab tgt_vocab src_max_vocab tgt_max_vocab
        = Inl (IndexError, init src_len tgt_len)) \<and>
   (prepare_data_from_list E src_data tgt_data src_len tgt_len = Some [] \<longrightarrow>
      from_list E src_data tgt_data src_len tgt_len src_vocab tgt_vocab src_max_vocab tgt_max_vocab
        = Inl (IndexError, init src_len tgt_len)) \<and>
   (from_file E path src_len tgt_len src_vocab tgt_vocab src_max_vocab tgt_max_vocab = Inr d \<longrightarrow>
      (\<exists>n. len d = Inr n \<and> 0 < n)) \<and>
   (from_list E src_data tgt_data src_len tgt_len src_vocab tgt_vocab src_max_vocab tgt_max_vocab
      = Inr d \<longrightarrow> (\<exists>n. len d = Inr n \<and> 0 < n))"
  by (auto simp: from_file_def from_list_def encode_empty encode_Inr_iff len_def Let_def
           split: option.splits)

theorem no_dataset_from_empty_pairs_witness:
  "prepare_data example ''corpus.tsv'' 1 5 = Some [] \<and>
   from_file example ''corpus.tsv'' 1 5 PyNone PyNone 6 50000 = Inl (IndexError, init 1 5) \<and>
   prepare_data_from_list example (map fst corpus) (map snd corpus) 1 5 = Some [] \<and>
   from_list example (map fst corpus) (map snd corpus) 1 5 PyNone PyNone 6 50000
     = Inl (IndexError, init 1 5) \<and>
   from_file example ''corpus.tsv'' 5 5 PyNone PyNone 6 50000 = Inr encoded_corpus \<and>
   from_list example (map fst corpus) (map snd corpus) 5 5 PyNone PyNone 6 50000
     = Inr encoded_corpus \<and>
   len encoded_corpus = Inr 2"
proof -
  have e: "prepare_data example ''corpus.tsv'' 1 5 = Some []"
    "prepare_data_from_list example (map fst corpus) (map snd corpus) 1 5 = Some []"
    by (simp_all add: example_def length_filter_def corpus_def)
  have p: "prepare_data example ''corpus.tsv'' 5 5 = Some (length_filter corpus 5 5)"
    "prepare_data_from_list example (map fst corpus) (map snd corpus) 5 5
       = Some (length_filter corpus 5 5)"
    by (simp_all add: example_def length_filter_def corpus_def)
  have r: "from_file example ''corpus.tsv'' 5 5 PyNone PyNone 6 50000 = Inr encoded_corpus"
    "from_list example (map fst corpus) (map snd corpus) 5 5 PyNone PyNone 6 50000
       = Inr encoded_corpus"
    by (simp_all add: from_file_def from_list_def p example_encode)
  from e r
    no_dataset_from_empty_pairs [where E = example and path = "''corpus.tsv''"
      and src_data = "map fst corpus" and tgt_data = "map snd corpus"
      and src_len = 1 and tgt_len = 5 and src_vocab = PyNone and tgt_vocab = PyNone
      and src_max_vocab = 6 and tgt_max_vocab = 50000]
    no_dataset_from_empty_pairs [where E = example and path = "''corpus.tsv''"
      and src_data = "map fst corpus" and tgt_data = "map snd corpus"
      and src_len = 5 and tgt_len = 5 and src_vocab = PyNone and tgt_vocab = PyNone
      and src_max_vocab = 6 and tgt_max_vocab = 50000 and d = encoded_corpus]
  show ?thesis by (simp add: encoded_corpus_def len_def)
qed

section \<open>Batching\<close>

lemma range_up_eq:
  "0 < step \<Longrightarrow>
   range_up i stop step = map (\<lambda>k. i + int k * step) [0..<nat (- ((i - stop) div step))]"
proof (induction i stop step rule: range_up.induct)
  case (1 i stop step)
  show ?case
  proof (cases "i < stop")
    case True
    let ?n = "nat (- ((i + step - stop) div step))"
    have d: "(i + step - stop) div step = (i - stop) div step + 1"
    proof -
      have "i + step - stop = (i - stop) + 1 * step" by simp
      then show ?thesis using 1(2) by (simp only: div_mult_self1)
    qed
    have neg: "(i - stop) div step < 0"
      using True 1(2) by (simp add: div_neg_pos_less0)
    have n: "nat (- ((i - stop) div step)) = Suc ?n"
      using d neg by simp
    have ih: "range_up (i + step) stop step = map (\<lambda>k. i + step + int k * step) [0..<?n]"
      using 1 True by simp
    have "range_up i stop step = i # range_up (i + step) stop step"
      using True 1(2) by (subst range_up.simps) simp
    also have "\<dots> = map (\<lambda>k. i + int k * step) [0..<Suc ?n]"
      unfolding ih by (simp add: upt_conv_Cons map_Suc_upt [symmetric] algebra_simps del: upt_Suc)
    finally show ?thesis by (simp only: n)
  next
    case False
    then have "0 \<le> (i - stop) div step"
      using 1(2) by (simp add: pos_imp_zdiv_nonneg_iff)
    moreover have "range_up i stop step = []"
      using False by (subst range_up.simps) simp
    ultimately show ?thesis by simp
  qed
qed

lemma getslice_nonneg:
  "0 \<le> lo \<Longrightarrow> 0 \<le> hi \<Longrightarrow> getslice xs lo hi = take (nat hi - nat lo) (drop (nat lo) xs)"
  by (auto simp: getslice_def slice_bound_def Let_def min_def)

lemma batches_loop_map:
  "batches_loop d b r =
     map (\<lambda>i. (map fst (getslice d i (i + b)), map snd (getslice d i (i + b)))) r"
  by (induction r) (simp_all add: Let_def)

lemma range_count_nonneg: "0 < b \<Longrightarrow> 0 \<le> - ((- int n) div b)"
  by (simp add: div_nonpos_pos_le0)

lemma num_batches_div:
  "data self = Some d \<Longrightarrow> 0 < b \<Longrightarrow>
   num_batches self b = Inr (- ((- int (length d)) div b))"
  using range_count_nonneg [of b "length d"]
  by (simp add: num_batches_def py_range_def range_up_eq)

lemma make_batches_eq:
  assumes "data self = Some d" and "0 < b" and "b \<le> int (length d)"
  shows "make_batches self b =
           (map (\<lambda>k. (map fst (take (nat b) (drop (k * nat b) d)),
                       map snd (take (nat b) (drop (k * nat b) d))))
              [0..<nat (- ((- int (length d)) div b))], None)"
proof -
  have s: "getslice d (int k * b) (int k * b + b) = take (nat b) (drop (k * nat b) d)" for k
  proof -
    have "0 \<le> int k * b" "0 \<le> int k * b + b" using assms(2) by simp_all
    moreover have "nat (int k * b) = k * nat b" using assms(2) by (simp add: nat_mult_distrib)
    moreover have "nat (int k * b + b) = k * nat b + nat b"
      using assms(2) by (simp add: nat_add_distrib nat_mult_distrib)
    ultimately show ?thesis by (simp add: getslice_nonneg)
  qed
  show ?thesis
    using assms by (simp add: make_batches_def py_range_def range_up_eq batches_loop_map s comp_def)
qed

lemma batch_count_less:
  assumes "0 < b"
  shows "k < nat (- ((- int n) div b)) \<longleftrightarrow> k * nat b < n"
proof -
  have "\<lceil>real_of_int (int n) / real_of_int b\<rceil> = - ((- int n) div b)"
    by (rule ceiling_divide_eq_div)
  then have c: "- ((- int n) div b) = \<lceil>real n / real_of_int b\<rceil>"
    by simp
  have "int k < \<lceil>real n / real_of_int b\<rceil> \<longleftrightarrow> real k < real n / real_of_int b"
    by (simp add: less_ceiling_iff)
  also have "\<dots> \<longleftrightarrow> real k * real_of_int b < real n"
    using assms by (simp add: pos_less_divide_eq)
  also have "\<dots> \<longleftrightarrow> real_of_int (int k * b) < real_of_int (int n)" by simp
  also have "\<dots> \<longleftrightarrow> int k * b < int n" by (simp only: of_int_less_iff)
  also have "\<dots> \<longleftrightarrow> int (k * nat b) < int n" using assms by simp
  finally show ?thesis using range_count_nonneg [OF assms, of n] c by linarith
qed

lemma concat_chunks:
  "concat (map (\<lambda>k. take b (drop (k * b) xs)) [0..<m]) = take (m * b) xs"
proof (induction m)
  case 0
  then show ?case by simp
next
  case (Suc m)
  have "take (m * b) xs @ take b (drop (m * b) xs) = take (m * b + b) xs"
    by (simp add: take_add)
  with Suc show ?case by (simp add: add.commute)
qed

lemma data_ten: "data ten = Some ten_pairs"
  by (simp add: ten_def)

lemma length_ten_pairs: "length ten_pairs = 10"
  by (simp add: ten_pairs_def)

lemma ten_range: "range_up 0 10 3 = [0, 3, 6, 9]"
  by (simp add: range_up.simps)

lemma ten_batches:
  "make_batches ten 3 =
     ([([[0], [1], [2]], [[100], [101], [102]]),
       ([[3], [4], [5]], [[103], [104], [105]]),
       ([[6], [7], [8]], [[106], [107], [108]]),
       ([[9]], [[109]])], None)"
  by (simp add: make_batches_def data_ten ten_pairs_def py_range_def ten_range getslice_def
        slice_bound_def Let_def)

text \<open>
  C2. On an encoded dataset and for a positive batch size, \<open>num_batches\<close> returns
  the ceiling of \<open>len(data) / batch_size\<close>; a corpus of ten pairs gives 4 batches
  of size 3.
\<close>

theorem num_batches_ceiling:
  assumes "data self = Some d" and "0 < batch_size"
  shows "num_batches self batch_size = Inr \<lceil>real (length d) / real_of_int batch_size\<rceil>"
proof -
  have "\<lceil>real (length d) / real_of_int batch_size\<rceil>
          = \<lceil>real_of_int (int (length d)) / real_of_int batch_size\<rceil>"
    by simp
  also have "\<dots> = - ((- int (length d)) div batch_size)"
    by (rule ceiling_divide_eq_div)
  finally show ?thesis using assms by (simp add: num_batches_div)
qed

theorem num_batches_ceiling_witness:
  "data ten = Some ten_pairs \<and> length ten_pairs = 10 \<and> (0::int) < 3 \<and> num_batches ten 3 = Inr 4"
  using num_batches_ceiling [OF data_ten, of 3] data_ten length_ten_pairs by simp

text \<open>
  C3. On an encoded dataset and for a positive batch size, iterating
  \<open>make_batches\<close> ends with \<open>OverflowError\<close> exactly when the batch size
  exceeds \<open>len(data)\<close>; the exception comes before any batch is yielded, and
  within the corpus size no exception ends the iteration. Batch size 11 on ten pairs
  raises.
\<close>

theorem make_batches_overflow:
  assumes "data self = Some d" and "0 < batch_size"
  shows "(snd (make_batches self batch_size) = Some OverflowError
            \<longleftrightarrow> int (length d) < batch_size) \<and>
         (int (length d) < batch_size \<longrightarrow>
            make_batches self batch_size = ([], Some OverflowError)) \<and>
         (batch_size \<le> int (length d) \<longrightarrow> snd (make_batches self batch_size) = None)"
  using assms by (simp add: make_batches_def py_range_def)

theorem make_batches_overflow_witness:
  "data ten = Some ten_pairs \<and> length ten_pairs = 10 \<and>
   make_batches ten 11 = ([], Some OverflowError) \<and>
   snd (make_batches ten 10) = None \<and> snd (make_batches ten 3) = None"
  using make_batches_overflow [OF data_ten, of 11] make_batches_overflow [OF data_ten, of 10]
    make_batches_overflow [OF data_ten, of 3] data_ten length_ten_pairs
  by simp

text \<open>
  C4. On an encoded dataset and for \<open>1 \<le> batch_size \<le> len(data)\<close>,
  \<open>make_batches\<close> yields as many batches as \<open>num_batches\<close> returns and ends
  without an exception. Batch \<open>k\<close> is the sources and the targets of
  \<open>data[k * batch_size : (k + 1) * batch_size]\<close>, position \<open>j\<close> of it coming from
  \<open>data[k * batch_size + j]\<close>; no batch is empty or longer than \<open>batch_size\<close>,
  every batch but the last has \<open>batch_size\<close> pairs, the batches laid end to end are
  the whole of \<open>data\<close>, and a call on any dataset with the same \<open>data\<close> yields
  the same batches.
\<close>

theorem make_batches_chunks:
  fixes self :: "'v dataset"
  assumes "data self = Some d" and "1 \<le> batch_size" and "batch_size \<le> int (length d)"
  shows "\<exists>bs.
     make_batches self batch_size = (bs, None) \<and>
     num_batches self batch_size = Inr (int (length bs)) \<and>
     (\<forall>k<length bs.
        bs ! k = (map fst (take (nat batch_size) (drop (k * nat batch_size) d)),
                  map snd (take (nat batch_size) (drop (k * nat batch_size) d))) \<and>
        0 < length (fst (bs ! k)) \<and> length (fst (bs ! k)) \<le> nat batch_size \<and>
        length (snd (bs ! k)) = length (fst (bs ! k)) \<and>
        (\<forall>j<length (fst (bs ! k)).
           k * nat batch_size + j < length d \<and>
           fst (bs ! k) ! j = fst (d ! (k * nat batch_size + j)) \<and>
           snd (bs ! k) ! j = snd (d ! (k * nat batch_size + j)))) \<and>
     (\<forall>k. Suc k < length bs \<longrightarrow> length (fst (bs ! k)) = nat batch_size) \<and>
     concat (map fst bs) = map fst d \<and> concat (map snd bs) = map snd d \<and>
     (\<forall>self' :: 'v dataset. data self' = data self \<longrightarrow> make_batches self' batch_size = (bs, None))"
proof -
  define b where "b = nat batch_size"
  define m where "m = nat (- ((- int (length d)) div batch_size))"
  define chunk where "chunk = (\<lambda>k. take b (drop (k * b) d))"
  define bs where "bs = map (\<lambda>k. (map fst (chunk k), map snd (chunk k))) [0..<m]"
  have pos: "0 < batch_size" using assms(2) by simp
  have bpos: "0 < b" using pos by (simp add: b_def)
  have mb: "make_batches s batch_size = (bs, None)" if "data s = Some d" for s :: "'v dataset"
    using make_batches_eq [OF that pos assms(3)] by (simp add: bs_def chunk_def b_def m_def)
  have len: "length bs = m" by (simp add: bs_def)
  have lt: "k < m \<longleftrightarrow> k * b < length d" for k
    unfolding m_def b_def by (rule batch_count_less [OF pos])
  have nb: "num_batches self batch_size = Inr (int (length bs))"
    using num_batches_div [OF assms(1) pos] range_count_nonneg [OF pos, of "length d"]
    by (simp add: len m_def)
  have nth: "bs ! k = (map fst (chunk k), map snd (chunk k))" if "k < m" for k
    using that by (simp add: bs_def)
  have clen: "length (chunk k) = min b (length d - k * b)" for k
    by (simp add: chunk_def)
  have elems: "\<forall>k<length bs.
        bs ! k = (map fst (chunk k), map snd (chunk k)) \<and>
        0 < length (fst (bs ! k)) \<and> length (fst (bs ! k)) \<le> b \<and>
        length (snd (bs ! k)) = length (fst (bs ! k)) \<and>
        (\<forall>j<length (fst (bs ! k)).
           k * b + j < length d \<and>
           fst (bs ! k) ! j = fst (d ! (k * b + j)) \<and>
           snd (bs ! k) ! j = snd (d ! (k * b + j)))"
  proof (intro allI impI)
    fix k assume "k < length bs"
    then have k: "k < m" by (simp add: len)
    then have kd: "k * b < length d" by (simp add: lt)
    have n: "bs ! k = (map fst (chunk k), map snd (chunk k))" by (rule nth [OF k])
    have "\<forall>j<length (chunk k). k * b + j < length d \<and> chunk k ! j = d ! (k * b + j)"
      by (auto simp: chunk_def)
    then show "bs ! k = (map fst (chunk k), map snd (chunk k)) \<and>
        0 < length (fst (bs ! k)) \<and> length (fst (bs ! k)) \<le> b \<and>
        length (snd (bs ! k)) = length (fst (bs ! k)) \<and>
        (\<forall>j<length (fst (bs ! k)).
           k * b + j < length d \<and>
           fst (bs ! k) ! j = fst (d ! (k * b + j)) \<and>
           snd (bs ! k) ! j = snd (d ! (k * b + j)))"
      using kd bpos by (simp add: n clen)
  qed
  have full: "\<forall>k. Suc k < length bs \<longrightarrow> length (fst (bs ! k)) = b"
  proof (intro allI impI)
    fix k assume "Suc k < length bs"
    then have s: "Suc k < m" and k: "k < m" by (simp_all add: len)
    from s have "Suc k * b < length d" by (simp only: lt)
    then have "b \<le> length d - k * b" by simp
    then show "length (fst (bs ! k)) = b" by (simp add: nth [OF k] clen)
  qed
  have "\<not> m * b < length d" using lt [of m] by simp
  then have all: "take (m * b) d = d" by simp
  have cc: "concat (map chunk [0..<m]) = d"
    using concat_chunks [of b d m] all by (simp add: chunk_def)
  have c1: "concat (map fst bs) = map fst d"
  proof -
    have "concat (map fst bs) = map fst (concat (map chunk [0..<m]))"
      by (simp add: bs_def map_concat comp_def)
    then show ?thesis by (simp only: cc)
  qed
  have c2: "concat (map snd bs) = map snd d"
  proof -
    have "concat (map snd bs) = map snd (concat (map chunk [0..<m]))"
      by (simp add: bs_def map_concat comp_def)
    then show ?thesis by (simp only: cc)
  qed
  have re: "\<forall>self' :: 'v dataset. data self' = data self \<longrightarrow> make_batches self' batch_size = (bs, None)"
    using mb assms(1) by simp
  from mb [OF assms(1)] nb elems full c1 c2 re show ?thesis
    unfolding chunk_def b_def by blast
qed

theorem make_batches_chunks_witness:
  "data ten = Some ten_pairs \<and> length ten_pairs = 10 \<and>
   make_batches ten 3 =
     ([([[0], [1], [2]], [[100], [101], [102]]),
       ([[3], [4], [5]], [[103], [104], [105]]),
       ([[6], [7], [8]], [[106], [107], [108]]),
       ([[9]], [[109]])], None) \<and>
   num_batches ten 3 = Inr 4"
proof -
  have h: "1 \<le> (3::int)" "(3::int) \<le> int (length ten_pairs)"
    by (simp_all add: length_ten_pairs)
  from make_batches_chunks [OF data_ten h]
  obtain bs where b: "make_batches ten 3 = (bs, None)"
    and n: "num_batches ten 3 = Inr (int (length bs))"
    by blast
  from b have "bs = fst (make_batches ten 3)" by simp
  with n have "num_batches ten 3 = Inr 4" by (simp add: ten_batches)
  with data_ten length_ten_pairs ten_batches show ?thesis by simp
qed

section \<open>Shuffling\<close>

lemma shuffle_loop_mset:
  "\<forall>i\<in>set is. i < length x \<Longrightarrow>
   mset (fst (shuffle_loop R is g x)) = mset x \<and> length (fst (shuffle_loop R is g x)) = length x"
proof (induction "is" arbitrary: g x)
  case Nil
  then show ?case by simp
next
  case (Cons i rest)
  let ?j = "scaled R g (i + 1) mod (i + 1)"
  let ?x = "x[i := x ! ?j, ?j := x ! i]"
  have i: "i < length x" using Cons.prems by simp
  have "?j \<le> i" by simp
  then have j: "?j < length x" using i by (rule le_less_trans)
  have m: "mset ?x = mset x" by (rule mset_swap [OF j i])
  have "\<forall>k\<in>set rest. k < length ?x" using Cons.prems by simp
  from Cons.IH [OF this, of "advance R g"] m show ?case by (simp add: Let_def)
qed

lemma random_shuffle_mset:
  "mset (fst (random_shuffle R g x)) = mset x \<and> length (fst (random_shuffle R g x)) = length x"
  unfolding random_shuffle_def by (rule shuffle_loop_mset) simp

lemma data_four: "data four = Some four_pairs"
  by (simp add: four_def)

lemma four_shuffle:
  "random_shuffle lcg 42 four_pairs =
     ([([3], [103]), ([0], [100]), ([1], [101]), ([2], [102])], 52412)"
proof -
  have two: "n mod Suc (Suc 0) = n mod 2" for n :: nat by (simp add: numeral_2_eq_2)
  have i: "rev [1..<length four_pairs] = [3, 2, 1]"
    by (simp add: four_pairs_def upt_rec)
  show ?thesis
    unfolding random_shuffle_def i
    by (simp add: lcg_def four_pairs_def two)
qed

lemma four_shuffle_unseeded:
  "shuffle lcg 7 four None =
     (None, 32612, four\<lparr>data := Some [([2], [102]), ([0], [100]), ([3], [103]), ([1], [101])]\<rparr>)"
proof -
  have two: "n mod Suc (Suc 0) = n mod 2" for n :: nat by (simp add: numeral_2_eq_2)
  have i: "rev [1..<length four_pairs] = [3, 2, 1]"
    by (simp add: four_pairs_def upt_rec)
  have "random_shuffle lcg 7 four_pairs =
          ([([2], [102]), ([0], [100]), ([3], [103]), ([1], [101])], 32612)"
    unfolding random_shuffle_def i
    by (simp add: lcg_def four_pairs_def two)
  then show ?thesis by (simp add: shuffle_def data_four)
qed

lemma four_shuffle_seeded:
  "shuffle lcg g four (Some 42) =
     (None, 52412, four\<lparr>data := Some [([3], [103]), ([0], [100]), ([1], [101]), ([2], [102])]\<rparr>)"
proof -
  have "seed lcg 42 = 42" by (simp add: lcg_def)
  then show ?thesis by (simp add: shuffle_def data_four four_shuffle)
qed

text \<open>
  C5. \<open>shuffle\<close> with an integer seed is deterministic: two calls with the same
  seed on datasets with the same \<open>data\<close> leave the same \<open>data\<close> and the same
  generator state, whatever the generator's state was before either call.
\<close>

theorem shuffle_seed_deterministic:
  fixes s1 s2 :: "'v dataset"
  assumes "data s1 = data s2"
  shows "fst (shuffle R g1 s1 (Some a)) = fst (shuffle R g2 s2 (Some a)) \<and>
         fst (snd (shuffle R g1 s1 (Some a))) = fst (snd (shuffle R g2 s2 (Some a))) \<and>
         data (snd (snd (shuffle R g1 s1 (Some a)))) = data (snd (snd (shuffle R g2 s2 (Some a))))"
  using assms by (simp add: shuffle_def Let_def split: option.split prod.split)

theorem shuffle_seed_deterministic_witness:
  "data four = data four \<and>
   shuffle lcg 0 four (Some 42) =
     (None, 52412, four\<lparr>data := Some [([3], [103]), ([0], [100]), ([1], [101]), ([2], [102])]\<rparr>) \<and>
   shuffle lcg 777 four (Some 42) =
     (None, 52412, four\<lparr>data := Some [([3], [103]), ([0], [100]), ([1], [101]), ([2], [102])]\<rparr>) \<and>
   data (snd (snd (shuffle lcg 0 four (Some 42)))) = data (snd (snd (shuffle lcg 777 four (Some 42))))"
  using shuffle_seed_deterministic [of four four lcg 0 42 777]
  by (simp add: four_shuffle_seeded)

text \<open>
  C6. \<open>shuffle\<close> on an encoded dataset, with or without a seed, raises nothing and
  changes only \<open>data\<close>, to a list with the same pairs the same number of times
  (hence the same length): a pair stays a pair, so every source sequence keeps its
  target sequence.
\<close>

theorem shuffle_permutes_pairs:
  assumes "data self = Some d"
  shows "\<exists>g' d'. shuffle R g self seed_arg = (None, g', self\<lparr>data := Some d'\<rparr>) \<and>
           mset d' = mset d \<and> length d' = length d \<and> set d' = set d \<and>
           mset (map fst d') = mset (map fst d) \<and> mset (map snd d') = mset (map snd d)"
proof -
  define g1 where "g1 = (case seed_arg of None \<Rightarrow> g | Some a \<Rightarrow> seed R a)"
  obtain d' g2 where r: "random_shuffle R g1 d = (d', g2)" by (cases "random_shuffle R g1 d")
  have m: "mset d' = mset d" and l: "length d' = length d"
    using random_shuffle_mset [of R g1 d] r by simp_all
  have s: "shuffle R g self seed_arg = (None, g2, self\<lparr>data := Some d'\<rparr>)"
    using assms r by (simp add: shuffle_def g1_def)
  have "set d' = set d" using m by (rule mset_eq_setD)
  moreover have "mset (map fst d') = mset (map fst d)" "mset (map snd d') = mset (map snd d)"
    using m by simp_all
  ultimately show ?thesis using s m l by blast
qed

theorem shuffle_permutes_pairs_witness:
  "data four = Some four_pairs \<and>
   shuffle lcg 0 four (Some 42) =
     (None, 52412, four\<lparr>data := Some [([3], [103]), ([0], [100]), ([1], [101]), ([2], [102])]\<rparr>) \<and>
   mset [([3], [103]), ([0], [100]), ([1], [101]), ([2::int], [102::int])] = mset four_pairs \<and>
   shuffle lcg 7 four None =
     (None, 32612, four\<lparr>data := Some [([2], [102]), ([0], [100]), ([3], [103]), ([1], [101])]\<rparr>) \<and>
   mset [([2], [102]), ([0], [100]), ([3], [103]), ([1::int], [101::int])] = mset four_pairs"
proof -
  have same: "d' = d''" if "four\<lparr>data := Some d'\<rparr> = four\<lparr>data := Some d''\<rparr>" for d' d''
  proof -
    from that have "data (four\<lparr>data := Some d'\<rparr>) = data (four\<lparr>data := Some d''\<rparr>)"
      by (rule arg_cong)
    then show ?thesis by simp
  qed
  from shuffle_permutes_pairs [OF data_four, of lcg 0 "Some 42"]
  obtain g1 d1 where s1: "shuffle lcg 0 four (Some 42) = (None, g1, four\<lparr>data := Some d1\<rparr>)"
    and m1: "mset d1 = mset four_pairs"
    by blast
  from s1 have "d1 = [([3], [103]), ([0], [100]), ([1], [101]), ([2], [102])]"
    by (simp add: four_shuffle_seeded same)
  with m1 have p1: "mset [([3], [103]), ([0], [100]), ([1], [101]), ([2::int], [102::int])]
                      = mset four_pairs"
    by simp
  from shuffle_permutes_pairs [OF data_four, of lcg 7 None]
  obtain g2 d2 where s2: "shuffle lcg 7 four None = (None, g2, four\<lparr>data := Some d2\<rparr>)"
    and m2: "mset d2 = mset four_pairs"
    by blast
  from s2 have "d2 = [([2], [102]), ([0], [100]), ([3], [103]), ([1], [101])]"
    by (simp add: four_shuffle_unseeded same)
  with m2 have p2: "mset [([2], [102]), ([0], [100]), ([3], [103]), ([1::int], [101::int])]
                      = mset four_pairs"
    by simp
  from data_four four_shuffle_seeded [of 0] four_shuffle_unseeded p1 p2 show ?thesis
    by (intro conjI)
qed

end
